theory Spec2Isabelle
  imports Main "HOL-Library.Word" "HOL-Library.Sublist"
begin

section \<open>The CreditAnalyzer contract\<close>

subsection \<open>Ciphertext capability\<close>

text \<open>
  The contract computes on \<open>euint8\<close>, \<open>euint32\<close> and \<open>ebool\<close> handles of the external
  FHE library. The library is a dependency, not code of this repository; a handle is
  modelled by the plaintext it encrypts, and every operation by what it does to the
  plaintexts: fixed-width unsigned arithmetic that wraps around (the library's
  arithmetic is unchecked), unsigned comparison, and selection.
\<close>

type_synonym euint8 = "8 word"
type_synonym euint32 = "32 word"
type_synonym ebool = bool
type_synonym uint256 = "256 word"
type_synonym address = "160 word"

definition FHE_add :: "'a::len word \<Rightarrow> 'a word \<Rightarrow> 'a word" where
  "FHE_add a b = a + b"

definition FHE_sub :: "'a::len word \<Rightarrow> 'a word \<Rightarrow> 'a word" where
  "FHE_sub a b = a - b"

definition FHE_mul :: "'a::len word \<Rightarrow> 'a word \<Rightarrow> 'a word" where
  "FHE_mul a b = a * b"

definition FHE_gt :: "'a::len word \<Rightarrow> 'a word \<Rightarrow> ebool" where
  "FHE_gt a b = (b < a)"

definition FHE_lt :: "'a::len word \<Rightarrow> 'a word \<Rightarrow> ebool" where
  "FHE_lt a b = (a < b)"

definition FHE_ge :: "'a::len word \<Rightarrow> 'a word \<Rightarrow> ebool" where
  "FHE_ge a b = (b \<le> a)"

definition FHE_eq :: "'a::len word \<Rightarrow> 'a word \<Rightarrow> ebool" where
  "FHE_eq a b = (a = b)"

definition FHE_select :: "ebool \<Rightarrow> 'a \<Rightarrow> 'a \<Rightarrow> 'a" where
  "FHE_select c a b = (if c then a else b)"

subsection \<open>Storage\<close>

definition EXCELLENT_SCORE :: "8 word" where "EXCELLENT_SCORE = 5"
definition GOOD_SCORE :: "8 word" where "GOOD_SCORE = 4"
definition FAIR_SCORE :: "8 word" where "FAIR_SCORE = 3"
definition POOR_SCORE :: "8 word" where "POOR_SCORE = 2"
definition BAD_SCORE :: "8 word" where "BAD_SCORE = 1"

record CreditData =
  encryptedIncome :: euint32
  encryptedDebt :: euint32
  encryptedAge :: euint8
  encryptedCreditHistory :: euint8
  encryptedPaymentHistory :: euint8
  hasSubmitted :: bool
  submissionTime :: uint256

record CreditEvaluation =
  encryptedScore :: euint8
  isEvaluated :: bool
  evaluationTime :: uint256
  isApproved :: ebool

text \<open>
  A Solidity mapping is total: a key never written reads as the all-zero struct.
\<close>

definition emptyCreditData :: CreditData where
  "emptyCreditData = \<lparr>encryptedIncome = 0, encryptedDebt = 0, encryptedAge = 0,
     encryptedCreditHistory = 0, encryptedPaymentHistory = 0, hasSubmitted = False,
     submissionTime = 0\<rparr>"

definition emptyCreditEvaluation :: CreditEvaluation where
  "emptyCreditEvaluation = \<lparr>encryptedScore = 0, isEvaluated = False, evaluationTime = 0,
     isApproved = False\<rparr>"

record contract_state =
  owner :: address
  totalEvaluations :: uint256
  creditSubmissions :: "address \<Rightarrow> CreditData"
  creditEvaluations :: "address \<Rightarrow> CreditEvaluation"

datatype event =
    CreditDataSubmitted address uint256
  | CreditEvaluated address uint256
  | LoanApprovalRequested address uint256

text \<open>
  The revert reasons of the contract:
  \<open>AlreadySubmitted\<close> is "Data already submitted",
  \<open>NotSubmitted\<close> is "No credit data submitted",
  \<open>NotAuthorized\<close> is "Not authorized to evaluate" and "Not authorized",
  \<open>AlreadyEvaluated\<close> is "Already evaluated",
  \<open>NotEvaluated\<close> is "Credit not evaluated yet" and "Not evaluated",
  \<open>Panic\<close> is the arithmetic-overflow panic of checked \<open>uint256\<close> increment.
\<close>

datatype error =
    AlreadySubmitted
  | NotSubmitted
  | NotAuthorized
  | AlreadyEvaluated
  | NotEvaluated
  | Panic

definition constructor :: "address \<Rightarrow> contract_state" where
  "constructor sender = \<lparr>owner = sender, totalEvaluations = 0,
     creditSubmissions = (\<lambda>_. emptyCreditData),
     creditEvaluations = (\<lambda>_. emptyCreditEvaluation)\<rparr>"

subsection \<open>Scoring engine\<close>

definition calculateBaseScore :: "CreditData \<Rightarrow> euint8" where
  "calculateBaseScore d = FAIR_SCORE"

definition applyAgeBonus :: "euint8 \<Rightarrow> euint8 \<Rightarrow> euint8" where
  "applyAgeBonus score age =
     (let ageBonus = FHE_gt age 25;
          score = FHE_select ageBonus (FHE_add score 1) score;
          matureAgeBonus = FHE_gt age 40
      in FHE_select matureAgeBonus (FHE_add score 1) score)"

definition applyCreditHistoryBonus :: "euint8 \<Rightarrow> euint8 \<Rightarrow> euint8" where
  "applyCreditHistoryBonus score creditHistory =
     (let historyBonus = FHE_gt creditHistory 5;
          score = FHE_select historyBonus (FHE_add score 1) score;
          longHistoryBonus = FHE_gt creditHistory 10
      in FHE_select longHistoryBonus (FHE_add score 1) score)"

definition applyPaymentHistoryBonus :: "euint8 \<Rightarrow> euint8 \<Rightarrow> euint8" where
  "applyPaymentHistoryBonus score paymentHistory =
     (let paymentBonus = FHE_gt paymentHistory 7;
          score = FHE_select paymentBonus (FHE_add score 1) score;
          perfectPayment = FHE_eq paymentHistory 10
      in FHE_select perfectPayment (FHE_add score 1) score)"

definition applyDebtPenalty :: "euint8 \<Rightarrow> euint32 \<Rightarrow> euint32 \<Rightarrow> euint8" where
  "applyDebtPenalty score debt income =
     (let highDebt = FHE_gt debt 20000;
          score = FHE_select highDebt (FHE_sub score 1) score;
          veryHighDebt = FHE_gt debt 50000;
          score = FHE_select veryHighDebt (FHE_sub score 1) score;
          debtExceedsIncome = FHE_gt debt income;
          score = FHE_select debtExceedsIncome (FHE_sub score 2) score;
          doubleIncome = FHE_mul income 2;
          debtExceedsDoubleIncome = FHE_gt debt doubleIncome
      in FHE_select debtExceedsDoubleIncome (FHE_sub score 1) score)"

definition applyIncomeBonus :: "euint8 \<Rightarrow> euint32 \<Rightarrow> euint8" where
  "applyIncomeBonus score income =
     (let incomeBonus = FHE_gt income 5000;
          score = FHE_select incomeBonus (FHE_add score 1) score;
          highIncomeBonus = FHE_gt income 10000
      in FHE_select highIncomeBonus (FHE_add score 1) score)"

definition enforceScoreLimits :: "euint8 \<Rightarrow> euint8" where
  "enforceScoreLimits score =
     (let scoreTooLow = FHE_lt score 1;
          score = FHE_select scoreTooLow 1 score;
          scoreTooHigh = FHE_gt score 5
      in FHE_select scoreTooHigh 5 score)"

text \<open>
  The accumulator of \<open>evaluateCreditScore\<close> just before \<open>_enforceScoreLimits\<close>: the
  base score and the five adjustments, in the order of the source.
\<close>

definition unclampedScore :: "CreditData \<Rightarrow> euint8" where
  "unclampedScore d =
     (let score = calculateBaseScore d;
          score = applyAgeBonus score (encryptedAge d);
          score = applyCreditHistoryBonus score (encryptedCreditHistory d);
          score = applyPaymentHistoryBonus score (encryptedPaymentHistory d);
          score = applyDebtPenalty score (encryptedDebt d) (encryptedIncome d)
      in applyIncomeBonus score (encryptedIncome d))"

subsection \<open>Transactions\<close>

definition submitCreditData ::
  "address \<Rightarrow> uint256 \<Rightarrow> euint32 \<Rightarrow> euint32 \<Rightarrow> euint8 \<Rightarrow> euint8 \<Rightarrow> euint8 \<Rightarrow>
   contract_state \<Rightarrow> error + contract_state \<times> event list" where
  "submitCreditData sender now income debt age creditHistory paymentHistory s =
     (if hasSubmitted (creditSubmissions s sender) then Inl AlreadySubmitted
      else Inr (s\<lparr>creditSubmissions := (creditSubmissions s)(sender :=
                   \<lparr>encryptedIncome = income, encryptedDebt = debt, encryptedAge = age,
                    encryptedCreditHistory = creditHistory,
                    encryptedPaymentHistory = paymentHistory,
                    hasSubmitted = True, submissionTime = now\<rparr>)\<rparr>,
                [CreditDataSubmitted sender now]))"

text \<open>
  The modifier \<open>hasSubmittedData\<close> runs first and reads the record of \<open>msg.sender\<close>.
  \<open>totalEvaluations++\<close> is checked arithmetic: at the maximum it panics and the whole
  transaction reverts. The permissions granted by \<open>FHE.allow\<close> and \<open>FHE.allowThis\<close> are
  kept by the access-control contract of the FHE library, not in the storage of this
  contract, and are not part of the state here.
\<close>

definition evaluateCreditScore ::
  "address \<Rightarrow> uint256 \<Rightarrow> address \<Rightarrow> contract_state \<Rightarrow> error + contract_state \<times> event list" where
  "evaluateCreditScore sender now user s =
     (if \<not> hasSubmitted (creditSubmissions s sender) then Inl NotSubmitted
      else if \<not> (sender = user \<or> sender = owner s) then Inl NotAuthorized
      else if isEvaluated (creditEvaluations s user) then Inl AlreadyEvaluated
      else
        let data = creditSubmissions s user;
            score = enforceScoreLimits (unclampedScore data);
            approved = FHE_ge score FAIR_SCORE
        in if totalEvaluations s = - 1 then Inl Panic
           else Inr (s\<lparr>creditEvaluations := (creditEvaluations s)(user :=
                          \<lparr>encryptedScore = score, isEvaluated = True,
                           evaluationTime = now, isApproved = approved\<rparr>),
                        totalEvaluations := totalEvaluations s + 1\<rparr>,
                     [CreditEvaluated user now]))"

definition requestLoanApproval ::
  "address \<Rightarrow> uint256 \<Rightarrow> contract_state \<Rightarrow> error + contract_state \<times> event list" where
  "requestLoanApproval sender now s =
     (if \<not> hasSubmitted (creditSubmissions s sender) then Inl NotSubmitted
      else if \<not> isEvaluated (creditEvaluations s sender) then Inl NotEvaluated
      else Inr (s, [LoanApprovalRequested sender now]))"

subsection \<open>Views\<close>

definition hasSubmittedCreditData :: "address \<Rightarrow> contract_state \<Rightarrow> bool" where
  "hasSubmittedCreditData user s = hasSubmitted (creditSubmissions s user)"

definition isCreditEvaluated :: "address \<Rightarrow> contract_state \<Rightarrow> bool" where
  "isCreditEvaluated user s = isEvaluated (creditEvaluations s user)"

definition getEvaluationStats :: "contract_state \<Rightarrow> uint256" where
  "getEvaluationStats s = totalEvaluations s"

definition getEncryptedCreditScore :: "address \<Rightarrow> address \<Rightarrow> contract_state \<Rightarrow> error + euint8" where
  "getEncryptedCreditScore sender user s =
     (if \<not> (sender = user \<or> sender = owner s) then Inl NotAuthorized
      else if \<not> isEvaluated (creditEvaluations s user) then Inl NotEvaluated
      else Inr (encryptedScore (creditEvaluations s user)))"

definition getEncryptedLoanApproval :: "address \<Rightarrow> address \<Rightarrow> contract_state \<Rightarrow> error + ebool" where
  "getEncryptedLoanApproval sender user s =
     (if \<not> (sender = user \<or> sender = owner s) then Inl NotAuthorized
      else if \<not> isEvaluated (creditEvaluations s user) then Inl NotEvaluated
      else Inr (isApproved (creditEvaluations s user)))"

subsection \<open>Histories of transactions\<close>

text \<open>
  A transaction names its sender, the block timestamp and the external function called.
  A reverted transaction leaves the storage as it was. The views change nothing and are
  not part of a history.
\<close>

datatype call =
    SubmitCreditData euint32 euint32 euint8 euint8 euint8
  | EvaluateCreditScore address
  | RequestLoanApproval

record transaction =
  tx_sender :: address
  tx_timestamp :: uint256
  tx_call :: call

fun execute :: "transaction \<Rightarrow> contract_state \<Rightarrow> error + contract_state \<times> event list" where
  "execute t s =
     (case tx_call t of
        SubmitCreditData i d a c p \<Rightarrow> submitCreditData (tx_sender t) (tx_timestamp t) i d a c p s
      | EvaluateCreditScore u \<Rightarrow> evaluateCreditScore (tx_sender t) (tx_timestamp t) u s
      | RequestLoanApproval \<Rightarrow> requestLoanApproval (tx_sender t) (tx_timestamp t) s)"

definition step :: "contract_state \<Rightarrow> transaction \<Rightarrow> contract_state" where
  "step s t = (case execute t s of Inl e \<Rightarrow> s | Inr (s', evs) \<Rightarrow> s')"

definition run :: "transaction list \<Rightarrow> contract_state \<Rightarrow> contract_state" where
  "run ts s = foldl step s ts"


section \<open>The transaction execution pipeline\<close>

subsection \<open>Data\<close>

text \<open>
  A JavaScript error as the pipeline reads it: its \<open>code\<close> (only compared with the
  numbers 4001 and -32603, so a code that is not a number is \<open>None\<close>) and its
  \<open>message\<close>, which may be undefined.
\<close>

record js_error =
  code :: "int option"
  message :: "string option"

definition newError :: "string \<Rightarrow> js_error" where
  "newError m = \<lparr>code = None, message = Some m\<rparr>"

text \<open>\<open>String.prototype.includes\<close>, and \<open>message?.includes(sub)\<close> on an error.\<close>

fun str_includes :: "string \<Rightarrow> string \<Rightarrow> bool" where
  "str_includes [] sub = (sub = [])"
| "str_includes (c # cs) sub = (prefix sub (c # cs) \<or> str_includes cs sub)"

definition messageIncludes :: "js_error \<Rightarrow> string \<Rightarrow> bool" where
  "messageIncludes e sub = (case message e of None \<Rightarrow> False | Some m \<Rightarrow> str_includes m sub)"

datatype status_kind = Pending | Confirming | Confirmed | Failed

text \<open>
  \<open>gasUsed\<close> and \<open>effectiveGasPrice\<close> are reported as decimal strings of the numbers kept
  here (in wei).
\<close>

record TransactionStatus =
  hash :: "string option"
  status :: status_kind
  confirmations :: nat
  gasUsed :: "nat option"
  effectiveGasPrice :: "nat option"
  blockNumber :: "nat option"
  error :: "string option"

text \<open>
  The fields of a gas estimate that the executor reads; \<open>estimatedCost\<close>, a display
  string produced through floating point, is left out.
\<close>

record GasEstimate =
  gasLimit :: nat
  gasPrice :: nat
  maxFeePerGas :: "nat option"
  maxPriorityFeePerGas :: "nat option"

record FeeData =
  fee_gasPrice :: "nat option"
  fee_maxFeePerGas :: "nat option"
  fee_maxPriorityFeePerGas :: "nat option"

record TransactionReceipt =
  receipt_status :: nat
  receipt_gasUsed :: nat
  receipt_gasPrice :: nat
  receipt_blockNumber :: nat

record txOptions =
  opt_gasLimit :: nat
  opt_gasPrice :: "nat option"
  opt_maxFeePerGas :: "nat option"
  opt_maxPriorityFeePerGas :: "nat option"

text \<open>
  What the provider, the contract and the wallet answer during one attempt: each call
  either throws or returns. \<open>sendTransaction\<close> is \<open>contract[methodName](...args, txOptions)\<close>
  and returns the hash of the transaction sent.
\<close>

record attempt_env =
  getFeeData :: "js_error + FeeData"
  estimateGas :: "js_error + nat"
  staticCall :: "js_error + unit"
  sendTransaction :: "txOptions \<Rightarrow> js_error + string"
  waitForTransaction :: "string \<Rightarrow> js_error + TransactionReceipt option"

record options =
  o_confirmations :: nat
  o_timeout :: nat
  o_retries :: int

text \<open>The values taken by options the caller leaves out.\<close>

definition defaultOptions :: options where
  "defaultOptions = \<lparr>o_confirmations = 1, o_timeout = 300000, o_retries = 1\<rparr>"

text \<open>
  What one call of \<open>executeTransaction\<close> does to the outside, in order: the progress
  callback, the pause before a retry (milliseconds), the log line that opens an
  attempt (with the attempt's number, from 1), and the submission with its options.
\<close>

datatype effect =
    StatusUpdate TransactionStatus
  | Delay nat
  | LogAttempt nat
  | Submit txOptions

datatype failure = Thrown "string option" | TypeError

subsection \<open>GasEstimator\<close>

definition gwei :: "nat \<Rightarrow> nat" where
  "gwei n = n * 10 ^ 9"

text \<open>Truthiness of \<open>bigint | null | undefined\<close>, and \<open>x || undefined\<close>.\<close>

definition truthy :: "nat option \<Rightarrow> bool" where
  "truthy x = (case x of None \<Rightarrow> False | Some n \<Rightarrow> n \<noteq> 0)"

definition orUndefined :: "nat option \<Rightarrow> nat option" where
  "orUndefined x = (if truthy x then x else None)"

definition defaultGasEstimate :: GasEstimate where
  "defaultGasEstimate = \<lparr>gasLimit = 400000, gasPrice = gwei 25,
     maxFeePerGas = Some (gwei 25), maxPriorityFeePerGas = Some (gwei 2)\<rparr>"

text \<open>The inner \<open>try\<close> of \<open>estimateContractCall\<close>: the gas limit before the buffer.\<close>

definition estimateGasLimit :: "attempt_env \<Rightarrow> js_error + nat" where
  "estimateGasLimit env =
     (case estimateGas env of
        Inr g \<Rightarrow> Inr g
      | Inl estimationError \<Rightarrow>
          (case staticCall env of
             Inr _ \<Rightarrow> Inr 300000
           | Inl staticError \<Rightarrow>
               Inl (newError (''Contract call would fail: '' @
                      (case message staticError of None \<Rightarrow> ''undefined'' | Some m \<Rightarrow> m)))))"

definition priceEstimate :: "FeeData \<Rightarrow> nat \<Rightarrow> GasEstimate" where
  "priceEstimate feeData bufferedGasLimit =
     (let gasPrice = (case fee_gasPrice feeData of None \<Rightarrow> 0 | Some p \<Rightarrow> p);
          maxFee = fee_maxFeePerGas feeData;
          maxPriority = fee_maxPriorityFeePerGas feeData;
          (gasPrice, maxFee) =
            (if gasPrice = 0 \<and> \<not> truthy maxFee then (gwei 20, Some (gwei 20))
             else (gasPrice, maxFee));
          maxFee = (if \<not> truthy maxFee \<and> gasPrice > 0 then Some gasPrice else maxFee)
      in \<lparr>gasLimit = bufferedGasLimit, gasPrice = gasPrice,
          maxFeePerGas = orUndefined maxFee,
          maxPriorityFeePerGas = orUndefined maxPriority\<rparr>)"

text \<open>
  The body of the outer \<open>try\<close>, then the outer \<open>catch\<close>: whatever is thrown inside,
  including the error of the failed static call, ends in the default estimate.
\<close>

definition estimateBody :: "attempt_env \<Rightarrow> js_error + GasEstimate" where
  "estimateBody env =
     (case getFeeData env of
        Inl e \<Rightarrow> Inl e
      | Inr feeData \<Rightarrow>
          (case estimateGasLimit env of
             Inl e \<Rightarrow> Inl e
           | Inr g \<Rightarrow> Inr (priceEstimate feeData ((g * 150) div 100))))"

definition estimateContractCall :: "attempt_env \<Rightarrow> GasEstimate" where
  "estimateContractCall env =
     (case estimateBody env of Inr g \<Rightarrow> g | Inl e \<Rightarrow> defaultGasEstimate)"

subsection \<open>TransactionTracker\<close>

definition trackTransaction ::
  "attempt_env \<Rightarrow> string \<Rightarrow> effect list \<times> (js_error + TransactionReceipt)" where
  "trackTransaction env txHash =
     (let initial = StatusUpdate \<lparr>hash = Some txHash, status = Pending, confirmations = 0,
            gasUsed = None, effectiveGasPrice = None, blockNumber = None, error = None\<rparr>;
          waited = (case waitForTransaction env txHash of
                      Inl e \<Rightarrow> Inl e
                    | Inr None \<Rightarrow> Inl (newError ''Transaction receipt not found'')
                    | Inr (Some receipt) \<Rightarrow> Inr receipt)
      in case waited of
           Inr receipt \<Rightarrow>
             ([initial,
               StatusUpdate \<lparr>hash = Some txHash,
                 status = (if receipt_status receipt = 1 then Confirmed else Failed),
                 confirmations = 1,
                 gasUsed = Some (receipt_gasUsed receipt),
                 effectiveGasPrice = (if receipt_gasPrice receipt \<noteq> 0
                                      then Some (receipt_gasPrice receipt) else None),
                 blockNumber = Some (receipt_blockNumber receipt), error = None\<rparr>],
              Inr receipt)
         | Inl e \<Rightarrow>
             ([initial,
               StatusUpdate \<lparr>hash = Some txHash, status = Failed, confirmations = 0,
                 gasUsed = None, effectiveGasPrice = None, blockNumber = None,
                 error = message e\<rparr>],
              Inl e))"

subsection \<open>TransactionExecutor\<close>

definition prepareOptions :: "GasEstimate \<Rightarrow> txOptions" where
  "prepareOptions gasEstimate =
     (if truthy (maxFeePerGas gasEstimate) \<and> truthy (maxPriorityFeePerGas gasEstimate)
      then \<lparr>opt_gasLimit = gasLimit gasEstimate, opt_gasPrice = None,
            opt_maxFeePerGas = maxFeePerGas gasEstimate,
            opt_maxPriorityFeePerGas = maxPriorityFeePerGas gasEstimate\<rparr>
      else if gasPrice gasEstimate \<noteq> 0
      then \<lparr>opt_gasLimit = gasLimit gasEstimate, opt_gasPrice = Some (gasPrice gasEstimate),
            opt_maxFeePerGas = None, opt_maxPriorityFeePerGas = None\<rparr>
      else \<lparr>opt_gasLimit = gasLimit gasEstimate, opt_gasPrice = None,
            opt_maxFeePerGas = None, opt_maxPriorityFeePerGas = None\<rparr>)"

text \<open>The \<open>try\<close> block of one iteration of the retry loop.\<close>

definition attemptBody ::
  "attempt_env \<Rightarrow> nat \<Rightarrow> effect list \<times> (js_error + TransactionReceipt)" where
  "attemptBody env attempt =
     (let start = (if attempt > 0 then [Delay 1000] else []) @ [LogAttempt (attempt + 1)];
          gasEstimate = estimateContractCall env;
          pendingUpdate = StatusUpdate \<lparr>hash = None, status = Pending, confirmations = 0,
            gasUsed = None, effectiveGasPrice = None, blockNumber = None, error = None\<rparr>;
          txOpts = prepareOptions gasEstimate
      in case sendTransaction env txOpts of
           Inl e \<Rightarrow> (start @ [pendingUpdate, Submit txOpts], Inl e)
         | Inr txHash \<Rightarrow>
             (case trackTransaction env txHash of
                (tracked, r) \<Rightarrow> (start @ [pendingUpdate, Submit txOpts] @ tracked, r)))"

definition isUserCancellation :: "js_error \<Rightarrow> bool" where
  "isUserCancellation e =
     (code e = Some 4001 \<or> messageIncludes e ''user rejected''
      \<or> messageIncludes e ''cancelled by user'')"

text \<open>
  The retry loop \<open>for (attempt = 0; attempt <= retries; attempt++)\<close>. The environment of
  attempt \<open>k\<close> is \<open>envs k\<close>. The loop ends with the receipt, or with \<open>lastError\<close>.
\<close>

function attemptLoop ::
  "(nat \<Rightarrow> attempt_env) \<Rightarrow> int \<Rightarrow> nat \<Rightarrow> js_error option \<Rightarrow>
   effect list \<times> (js_error option + TransactionReceipt)" where
  "attemptLoop envs retries attempt lastError =
     (if int attempt \<le> retries then
        (case attemptBody (envs attempt) attempt of
           (tr, Inr receipt) \<Rightarrow> (tr, Inr receipt)
         | (tr, Inl e) \<Rightarrow>
             if isUserCancellation e then (tr, Inl (Some e))
             else if int attempt = retries then (tr, Inl (Some e))
             else (case attemptLoop envs retries (Suc attempt) (Some e) of
                     (tr', r) \<Rightarrow> (tr @ tr', r)))
      else ([], Inl lastError))"
  by pat_completeness auto
termination
  by (relation "measure (\<lambda>(envs, retries, attempt, lastError). nat (retries + 1 - int attempt))")
     auto

declare attemptLoop.simps [simp del]

definition userMessage :: "js_error \<Rightarrow> string option" where
  "userMessage lastError =
     (if code lastError = Some 4001 then Some ''Transaction cancelled by user''
      else if code lastError = Some (- 32603)
        then Some ''Transaction failed - insufficient funds or contract error''
      else if messageIncludes lastError ''insufficient funds''
        then Some ''Insufficient ETH balance for gas fees''
      else if messageIncludes lastError ''user rejected''
        then Some ''Transaction rejected by user''
      else if messageIncludes lastError ''execution reverted''
        then Some ''Contract execution failed - check your data''
      else if messageIncludes lastError ''missing revert data''
        then Some ''Contract call failed - please check your input data and try again''
      else if messageIncludes lastError ''CALL_EXCEPTION''
        then Some ''Contract call exception - please verify your data is correct''
      else message lastError)"

text \<open>
  \<open>executeTransaction\<close>: the loop, then the classification of \<open>lastError\<close>, the final
  \<open>failed\<close> update and the throw. When the loop body never ran (\<open>retries < 0\<close>),
  \<open>lastError\<close> is null and reading its message is a \<open>TypeError\<close>.
\<close>

definition executeTransaction ::
  "(nat \<Rightarrow> attempt_env) \<Rightarrow> options \<Rightarrow> effect list \<times> (failure + TransactionReceipt)" where
  "executeTransaction envs opts =
     (case attemptLoop envs (o_retries opts) 0 None of
        (tr, Inr receipt) \<Rightarrow> (tr, Inr receipt)
      | (tr, Inl None) \<Rightarrow> (tr, Inl TypeError)
      | (tr, Inl (Some lastError)) \<Rightarrow>
          (tr @ [StatusUpdate \<lparr>hash = None, status = Failed, confirmations = 0,
                   gasUsed = None, effectiveGasPrice = None, blockNumber = None,
                   error = userMessage lastError\<rparr>],
           Inl (Thrown (userMessage lastError))))"

subsection \<open>Reading a trace\<close>

fun statusesOf :: "effect list \<Rightarrow> TransactionStatus list" where
  "statusesOf [] = []"
| "statusesOf (StatusUpdate st # es) = st # statusesOf es"
| "statusesOf (_ # es) = statusesOf es"

fun delaysOf :: "effect list \<Rightarrow> nat list" where
  "delaysOf [] = []"
| "delaysOf (Delay d # es) = d # delaysOf es"
| "delaysOf (_ # es) = delaysOf es"

fun attemptsOf :: "effect list \<Rightarrow> nat list" where
  "attemptsOf [] = []"
| "attemptsOf (LogAttempt n # es) = n # attemptsOf es"
| "attemptsOf (_ # es) = attemptsOf es"

fun submissionsOf :: "effect list \<Rightarrow> txOptions list" where
  "submissionsOf [] = []"
| "submissionsOf (Submit t # es) = t # submissionsOf es"
| "submissionsOf (_ # es) = submissionsOf es"

text \<open>The number of attempts one call makes: the log lines that open an attempt.\<close>

definition attemptsMade :: "(nat \<Rightarrow> attempt_env) \<Rightarrow> options \<Rightarrow> nat" where
  "attemptsMade envs opts = length (attemptsOf (fst (executeTransaction envs opts)))"

text \<open>The report that \<open>executeTransaction\<close> makes just before it throws.\<close>

definition failedReport :: "string option \<Rightarrow> TransactionStatus" where
  "failedReport m = \<lparr>hash = None, status = Failed, confirmations = 0,
     gasUsed = None, effectiveGasPrice = None, blockNumber = None, error = m\<rparr>"



section \<open>Example inputs\<close>

subsection \<open>Credit records and histories\<close>

text \<open>The poor credit profile of the test scenarios.\<close>

definition scenarioB :: CreditData where
  "scenarioB = \<lparr>encryptedIncome = 2000, encryptedDebt = 30000, encryptedAge = 20,
     encryptedCreditHistory = 1, encryptedPaymentHistory = 3, hasSubmitted = True,
     submissionTime = 0\<rparr>"

definition deployer :: address where "deployer = 1"
definition alice :: address where "alice = 2"
definition mallory :: address where "mallory = 3"

definition submitA :: transaction where
  "submitA = \<lparr>tx_sender = alice, tx_timestamp = 100,
     tx_call = SubmitCreditData 8000 5000 35 8 9\<rparr>"

definition evaluateA :: transaction where
  "evaluateA = \<lparr>tx_sender = alice, tx_timestamp = 200, tx_call = EvaluateCreditScore alice\<rparr>"

definition requestA :: transaction where
  "requestA = \<lparr>tx_sender = alice, tx_timestamp = 300, tx_call = RequestLoanApproval\<rparr>"

definition ownerSubmits :: transaction where
  "ownerSubmits = \<lparr>tx_sender = deployer, tx_timestamp = 50,
     tx_call = SubmitCreditData 8000 5000 35 8 9\<rparr>"

subsection \<open>Environments of the pipeline\<close>

definition goodReceipt :: TransactionReceipt where
  "goodReceipt = \<lparr>receipt_status = 1, receipt_gasUsed = 210000, receipt_gasPrice = gwei 30,
     receipt_blockNumber = 1234\<rparr>"

definition goodFees :: FeeData where
  "goodFees = \<lparr>fee_gasPrice = Some (gwei 20), fee_maxFeePerGas = Some (gwei 40),
     fee_maxPriorityFeePerGas = Some (gwei 2)\<rparr>"

text \<open>Every call answers; the dynamic estimate is the odd number 200001.\<close>

definition goodEnv :: attempt_env where
  "goodEnv = \<lparr>getFeeData = Inr goodFees, estimateGas = Inr 200001, staticCall = Inr (),
     sendTransaction = (\<lambda>_. Inr ''0xabc''),
     waitForTransaction = (\<lambda>_. Inr (Some goodReceipt))\<rparr>"

text \<open>The call reverts: estimation, the static call and the submission all throw.\<close>

definition revertedEnv :: attempt_env where
  "revertedEnv = goodEnv\<lparr>estimateGas := Inl (newError ''execution reverted''),
     staticCall := Inl (newError ''execution reverted''),
     sendTransaction := (\<lambda>_. Inl (newError ''execution reverted''))\<rparr>"

text \<open>The transaction is sent, but waiting for it throws.\<close>

definition droppedEnv :: attempt_env where
  "droppedEnv = goodEnv\<lparr>waitForTransaction := (\<lambda>_. Inl (newError ''network error''))\<rparr>"

definition revertedThenGood :: "nat \<Rightarrow> attempt_env" where
  "revertedThenGood k = (if k = 0 then revertedEnv else goodEnv)"

definition droppedThenGood :: "nat \<Rightarrow> attempt_env" where
  "droppedThenGood k = (if k = 0 then droppedEnv else goodEnv)"

text \<open>The fee data cannot be read; everything else answers.\<close>

definition feeDownEnv :: attempt_env where
  "feeDownEnv = goodEnv\<lparr>getFeeData := Inl (newError ''network error'')\<rparr>"

text \<open>Dynamic estimation throws; the static call succeeds.\<close>

definition fallbackEnv :: attempt_env where
  "fallbackEnv = goodEnv\<lparr>estimateGas := Inl (newError ''cannot estimate gas'')\<rparr>"

definition oneRetry :: options where
  "oneRetry = \<lparr>o_confirmations = 3, o_timeout = 300000, o_retries = 1\<rparr>"

section \<open>Predicates of the statements\<close>

text \<open>A transaction that calls \<open>evaluateCreditScore\<close> and does not revert.\<close>

definition isSuccessfulEvaluate :: "transaction \<Rightarrow> contract_state \<Rightarrow> bool" where
  "isSuccessfulEvaluate t s =
     (case tx_call t of
        EvaluateCreditScore u \<Rightarrow> (case execute t s of Inr r \<Rightarrow> True | Inl e \<Rightarrow> False)
      | _ \<Rightarrow> False)"

text \<open>The counter agrees with the number of evaluated addresses.\<close>

definition evaluationsCounted :: "contract_state \<Rightarrow> bool" where
  "evaluationsCounted s =
     (unat (totalEvaluations s) = card {u. isEvaluated (creditEvaluations s u)})"

section \<open>Collections of unfolding rules\<close>

lemmas FHE_defs = FHE_add_def FHE_sub_def FHE_mul_def FHE_gt_def FHE_lt_def FHE_ge_def
  FHE_eq_def FHE_select_def

lemmas score_defs = unclampedScore_def calculateBaseScore_def applyAgeBonus_def
  applyCreditHistoryBonus_def applyPaymentHistoryBonus_def applyDebtPenalty_def
  applyIncomeBonus_def FAIR_SCORE_def

lemmas actor_defs = deployer_def alice_def mallory_def submitA_def evaluateA_def requestA_def
  ownerSubmits_def

lemmas tx_defs = run_def step_def submitCreditData_def evaluateCreditScore_def
  requestLoanApproval_def constructor_def emptyCreditData_def emptyCreditEvaluation_def

lemmas env_defs = goodReceipt_def goodFees_def goodEnv_def revertedEnv_def droppedEnv_def
  revertedThenGood_def droppedThenGood_def oneRetry_def feeDownEnv_def fallbackEnv_def

lemmas estimate_defs = estimateContractCall_def estimateBody_def estimateGasLimit_def
  priceEstimate_def defaultGasEstimate_def prepareOptions_def truthy_def orUndefined_def
  gwei_def newError_def

lemmas pipeline_defs = executeTransaction_def attemptLoop.simps attemptBody_def
  trackTransaction_def isUserCancellation_def userMessage_def messageIncludes_def

section \<open>The scoring engine\<close>

text \<open>
  C1. For income 2000, debt 30000, age 20, credit history 1 and payment history 3 the
  claim expects an unclamped sum of -1, a clamped score of 1 and no approval. The
  accumulator is an unsigned 8-bit value: the three debt penalties take it from 3 through
  0 to 255, the low clamp does not fire, the high clamp does, and the stored result is
  score 5 with approval.
\<close>

theorem scenario_B_wraps:
  "unclampedScore scenarioB = 255
   \<and> sint (unclampedScore scenarioB) = - 1
   \<and> enforceScoreLimits (unclampedScore scenarioB) = 5
   \<and> FHE_ge (enforceScoreLimits (unclampedScore scenarioB)) FAIR_SCORE = True"
  by (simp add: scenarioB_def score_defs FHE_defs enforceScoreLimits_def)

lemma enforceScoreLimits_range: "1 \<le> enforceScoreLimits x \<and> enforceScoreLimits x \<le> 5"
  unfolding enforceScoreLimits_def FHE_defs Let_def
  by (auto simp: word_le_nat_alt word_less_nat_alt unat_gt_0 not_less Suc_le_eq)

text \<open>
  C2. Whenever \<open>evaluateCreditScore\<close> succeeds, the score it stores for the user is the
  clamped score of the user's record, it lies between 1 and 5, and the stored approval
  flag is true exactly when that score is at least 3.
\<close>

theorem evaluate_score_in_range:
  assumes "evaluateCreditScore sender now user s = Inr (s', evs)"
  shows "encryptedScore (creditEvaluations s' user)
           = enforceScoreLimits (unclampedScore (creditSubmissions s user))
    \<and> 1 \<le> encryptedScore (creditEvaluations s' user)
    \<and> encryptedScore (creditEvaluations s' user) \<le> 5
    \<and> isApproved (creditEvaluations s' user) = (3 \<le> encryptedScore (creditEvaluations s' user))"
proof -
  from assms have sc: "encryptedScore (creditEvaluations s' user)
           = enforceScoreLimits (unclampedScore (creditSubmissions s user))"
    and ap: "isApproved (creditEvaluations s' user)
           = (3 \<le> enforceScoreLimits (unclampedScore (creditSubmissions s user)))"
    by (auto simp: evaluateCreditScore_def Let_def FHE_ge_def FAIR_SCORE_def split: if_splits)
  from sc ap enforceScoreLimits_range [of "unclampedScore (creditSubmissions s user)"]
  show ?thesis by simp
qed

theorem evaluate_score_in_range_witness:
  "evaluateCreditScore alice 200 alice (run [submitA] (constructor deployer))
     = Inr (run [submitA, evaluateA] (constructor deployer), [CreditEvaluated alice 200])
   \<and> encryptedScore (creditEvaluations (run [submitA, evaluateA] (constructor deployer)) alice) = 5
   \<and> isApproved (creditEvaluations (run [submitA, evaluateA] (constructor deployer)) alice) = True"
proof -
  have h: "evaluateCreditScore alice 200 alice (run [submitA] (constructor deployer))
     = Inr (run [submitA, evaluateA] (constructor deployer), [CreditEvaluated alice 200])"
    by (simp add: actor_defs tx_defs Let_def)
  have v: "enforceScoreLimits
      (unclampedScore (creditSubmissions (run [submitA] (constructor deployer)) alice)) = 5"
    by (simp add: actor_defs tx_defs score_defs FHE_defs enforceScoreLimits_def)
  from evaluate_score_in_range [OF h] v h show ?thesis by simp
qed


section \<open>The evaluation state machine\<close>

text \<open>
  C3. The claim expects \<open>evaluate(u)\<close> by the administrator to fail with NotSubmitted
  when \<open>u\<close> has not submitted, and to succeed when \<open>u\<close> has submitted and is not yet
  evaluated. The modifier reads the record of the caller instead. When the owner has
  submitted and alice has not, the owner's call for alice succeeds: alice's all-zero
  record is scored 3, she is marked evaluated and the counter becomes 1. When alice has
  submitted and the owner has not, the owner's call for alice fails with NotSubmitted.
\<close>

theorem owner_evaluates_unsubmitted_user:
  "hasSubmitted (creditSubmissions (run [ownerSubmits] (constructor deployer)) alice) = False
   \<and> evaluateCreditScore deployer 200 alice (run [ownerSubmits] (constructor deployer))
       = Inr ((run [ownerSubmits] (constructor deployer))
                \<lparr>creditEvaluations :=
                   (creditEvaluations (run [ownerSubmits] (constructor deployer)))
                     (alice := \<lparr>encryptedScore = 3, isEvaluated = True,
                                evaluationTime = 200, isApproved = True\<rparr>),
                 totalEvaluations := 1\<rparr>,
              [CreditEvaluated alice 200])
   \<and> hasSubmitted (creditSubmissions (run [submitA] (constructor deployer)) alice) = True
   \<and> isEvaluated (creditEvaluations (run [submitA] (constructor deployer)) alice) = False
   \<and> evaluateCreditScore deployer 200 alice (run [submitA] (constructor deployer))
       = Inl NotSubmitted"
  by (simp add: actor_defs tx_defs score_defs FHE_defs enforceScoreLimits_def)

lemma step_keeps_submitted:
  "hasSubmitted (creditSubmissions s u) \<Longrightarrow>
     creditSubmissions (step s t) u = creditSubmissions s u"
  by (cases "tx_call t")
     (auto simp: step_def submitCreditData_def evaluateCreditScore_def requestLoanApproval_def
        Let_def split: sum.splits if_splits)

lemma run_keeps_submitted:
  "hasSubmitted (creditSubmissions s u) \<Longrightarrow>
     creditSubmissions (run ts s) u = creditSubmissions s u"
proof (induction ts arbitrary: s)
  case Nil
  then show ?case by (simp add: run_def)
next
  case (Cons t ts)
  have "creditSubmissions (step s t) u = creditSubmissions s u"
    using Cons.prems by (rule step_keeps_submitted)
  moreover from this Cons.prems have "hasSubmitted (creditSubmissions (step s t) u)" by simp
  ultimately show ?case using Cons.IH [of "step s t"] by (simp add: run_def)
qed

text \<open>
  C4. After a successful \<open>submitCreditData\<close> by \<open>u\<close>, and after any further history
  \<open>ts\<close> of transactions by anyone, a submission by \<open>u\<close> fails with AlreadySubmitted
  whatever its arguments and timestamp, and the record stored for \<open>u\<close> still holds the
  five fields first submitted, the flag and the first timestamp.
\<close>

theorem submit_one_shot:
  assumes "submitCreditData u t i d a c p s = Inr (s1, evs)"
  shows "submitCreditData u t' i' d' a' c' p' (run ts s1) = Inl AlreadySubmitted
    \<and> creditSubmissions (run ts s1) u =
        \<lparr>encryptedIncome = i, encryptedDebt = d, encryptedAge = a,
         encryptedCreditHistory = c, encryptedPaymentHistory = p,
         hasSubmitted = True, submissionTime = t\<rparr>"
proof -
  from assms have rec: "creditSubmissions s1 u =
        \<lparr>encryptedIncome = i, encryptedDebt = d, encryptedAge = a,
         encryptedCreditHistory = c, encryptedPaymentHistory = p,
         hasSubmitted = True, submissionTime = t\<rparr>"
    by (auto simp: submitCreditData_def split: if_splits)
  then have "hasSubmitted (creditSubmissions s1 u)" by simp
  then have "creditSubmissions (run ts s1) u = creditSubmissions s1 u"
    by (rule run_keeps_submitted)
  with rec show ?thesis by (simp add: submitCreditData_def)
qed

theorem submit_one_shot_witness:
  "submitCreditData alice 100 8000 5000 35 8 9 (constructor deployer)
     = Inr (run [submitA] (constructor deployer), [CreditDataSubmitted alice 100])
   \<and> submitCreditData alice 400 1 2 3 4 5
        (run [evaluateA, requestA] (run [submitA] (constructor deployer))) = Inl AlreadySubmitted
   \<and> creditSubmissions (run [evaluateA, requestA] (run [submitA] (constructor deployer))) alice
       = \<lparr>encryptedIncome = 8000, encryptedDebt = 5000, encryptedAge = 35,
          encryptedCreditHistory = 8, encryptedPaymentHistory = 9,
          hasSubmitted = True, submissionTime = 100\<rparr>"
proof -
  have h: "submitCreditData alice 100 8000 5000 35 8 9 (constructor deployer)
     = Inr (run [submitA] (constructor deployer), [CreditDataSubmitted alice 100])"
    by (simp add: actor_defs tx_defs)
  from submit_one_shot [OF h, of 400 1 2 3 4 5 "[evaluateA, requestA]"] h show ?thesis by simp
qed

text \<open>
  C5, as stated: a caller below Evaluated gets NotEvaluated. A caller who never
  submitted is below Evaluated, and is rejected by the modifier with NotSubmitted.
\<close>

theorem request_approval_unsubmitted:
  "isEvaluated (creditEvaluations (constructor deployer) alice) = False
   \<and> requestLoanApproval alice 100 (constructor deployer) = Inl NotSubmitted
   \<and> requestLoanApproval alice 100 (constructor deployer) \<noteq> Inl NotEvaluated"
  by (simp add: tx_defs)

text \<open>
  C5, amended. \<open>requestLoanApproval\<close> fails with NotSubmitted for a caller who has not
  submitted and with NotEvaluated for a caller who has submitted but is not evaluated.
  When it succeeds the storage after the call is the storage before it (every record,
  every evaluation, the counter and the owner), and the only effect is the
  \<open>LoanApprovalRequested\<close> event.
\<close>

theorem request_approval_frame:
  "(\<not> hasSubmitted (creditSubmissions s c) \<longrightarrow> requestLoanApproval c t s = Inl NotSubmitted)
   \<and> (hasSubmitted (creditSubmissions s c) \<and> \<not> isEvaluated (creditEvaluations s c)
        \<longrightarrow> requestLoanApproval c t s = Inl NotEvaluated)
   \<and> (requestLoanApproval c t s = Inr (s', evs) \<longrightarrow> s' = s \<and> evs = [LoanApprovalRequested c t])"
  by (auto simp: requestLoanApproval_def split: if_splits)

theorem request_approval_frame_witness:
  "requestLoanApproval alice 300 (constructor deployer) = Inl NotSubmitted
   \<and> requestLoanApproval alice 300 (run [submitA] (constructor deployer)) = Inl NotEvaluated
   \<and> requestLoanApproval alice 300 (run [submitA, evaluateA] (constructor deployer))
       = Inr (run [submitA, evaluateA] (constructor deployer), [LoanApprovalRequested alice 300])"
proof -
  have a: "\<not> hasSubmitted (creditSubmissions (constructor deployer) alice)"
    by (simp add: tx_defs)
  have b: "hasSubmitted (creditSubmissions (run [submitA] (constructor deployer)) alice)
      \<and> \<not> isEvaluated (creditEvaluations (run [submitA] (constructor deployer)) alice)"
    by (simp add: actor_defs tx_defs)
  have c: "requestLoanApproval alice 300 (run [submitA, evaluateA] (constructor deployer))
       = Inr (run [submitA, evaluateA] (constructor deployer), [LoanApprovalRequested alice 300])"
    by (simp add: actor_defs tx_defs Let_def)
  from request_approval_frame [of "constructor deployer" alice 300] a
    request_approval_frame [of "run [submitA] (constructor deployer)" alice 300] b
    request_approval_frame [of "run [submitA, evaluateA] (constructor deployer)" alice 300
      "run [submitA, evaluateA] (constructor deployer)" "[LoanApprovalRequested alice 300]"] c
  show ?thesis by simp
qed

text \<open>
  C6. A caller who is neither the user asked about nor the owner gets NotAuthorized
  from \<open>getEncryptedCreditScore\<close> and from \<open>getEncryptedLoanApproval\<close>; so whoever
  obtains a handle from either is the user or the owner.
\<close>

theorem read_access:
  "(c \<noteq> u \<and> c \<noteq> owner s \<longrightarrow>
      getEncryptedCreditScore c u s = Inl NotAuthorized
      \<and> getEncryptedLoanApproval c u s = Inl NotAuthorized)
   \<and> (getEncryptedCreditScore c u s = Inr h \<or> getEncryptedLoanApproval c u s = Inr b
        \<longrightarrow> c = u \<or> c = owner s)"
  by (auto simp: getEncryptedCreditScore_def getEncryptedLoanApproval_def split: if_splits)

theorem read_access_witness:
  "getEncryptedCreditScore mallory alice (run [submitA, evaluateA] (constructor deployer))
     = Inl NotAuthorized
   \<and> getEncryptedLoanApproval mallory alice (run [submitA, evaluateA] (constructor deployer))
     = Inl NotAuthorized
   \<and> getEncryptedCreditScore deployer alice (run [submitA, evaluateA] (constructor deployer)) = Inr 5
   \<and> getEncryptedLoanApproval alice alice (run [submitA, evaluateA] (constructor deployer)) = Inr True
   \<and> (deployer = alice \<or> deployer = owner (run [submitA, evaluateA] (constructor deployer)))"
proof -
  have a: "mallory \<noteq> alice \<and> mallory \<noteq> owner (run [submitA, evaluateA] (constructor deployer))"
    by (simp add: actor_defs tx_defs Let_def)
  have b: "getEncryptedCreditScore deployer alice (run [submitA, evaluateA] (constructor deployer)) = Inr 5"
    by (simp add: getEncryptedCreditScore_def actor_defs tx_defs score_defs FHE_defs
          enforceScoreLimits_def)
  have c: "getEncryptedLoanApproval alice alice (run [submitA, evaluateA] (constructor deployer)) = Inr True"
    by (simp add: getEncryptedLoanApproval_def actor_defs tx_defs score_defs FHE_defs
          enforceScoreLimits_def)
  from read_access [of mallory alice "run [submitA, evaluateA] (constructor deployer)"] a
    read_access [of deployer alice "run [submitA, evaluateA] (constructor deployer)" 5] b c
  show ?thesis by simp
qed


subsection \<open>The evaluation counter\<close>

lemma unat_succ: "(x::256 word) \<noteq> - 1 \<Longrightarrow> unat (x + 1) = Suc (unat x)"
proof -
  assume "x \<noteq> - 1"
  then have "1 + x \<noteq> 0" by (simp add: add_eq_0_iff)
  then have "unat (1 + x) = Suc (unat x)" by (rule unatSuc)
  then show ?thesis by (simp add: add.commute)
qed

lemma evaluate_counts:
  assumes "evaluateCreditScore c t u s = Inr (s', evs)"
  shows "totalEvaluations s' = totalEvaluations s + 1 \<and> totalEvaluations s \<noteq> - 1
    \<and> \<not> isEvaluated (creditEvaluations s u)
    \<and> {v. isEvaluated (creditEvaluations s' v)}
        = insert u {v. isEvaluated (creditEvaluations s v)}"
  using assms by (auto simp: evaluateCreditScore_def Let_def split: if_splits)

lemma step_evaluationsCounted: "evaluationsCounted s \<Longrightarrow> evaluationsCounted (step s t)"
proof (cases "tx_call t")
  case (SubmitCreditData i d a c p)
  then show "evaluationsCounted s \<Longrightarrow> evaluationsCounted (step s t)"
    by (auto simp: evaluationsCounted_def step_def submitCreditData_def
          split: sum.splits if_splits)
next
  case (EvaluateCreditScore u)
  assume inv: "evaluationsCounted s"
  show "evaluationsCounted (step s t)"
  proof (cases "evaluateCreditScore (tx_sender t) (tx_timestamp t) u s")
    case (Inl e)
    with EvaluateCreditScore inv show ?thesis by (simp add: step_def)
  next
    case (Inr r)
    obtain s' evs where r: "r = (s', evs)" by (cases r)
    from Inr r have st: "step s t = s'" using EvaluateCreditScore by (simp add: step_def)
    from evaluate_counts [OF Inr [unfolded r]] inv show ?thesis
      unfolding st evaluationsCounted_def by (simp add: unat_succ)
  qed
next
  case RequestLoanApproval
  then show "evaluationsCounted s \<Longrightarrow> evaluationsCounted (step s t)"
    by (auto simp: evaluationsCounted_def step_def requestLoanApproval_def
          split: sum.splits if_splits)
qed

lemma run_evaluationsCounted: "evaluationsCounted s \<Longrightarrow> evaluationsCounted (run ts s)"
  by (induction ts arbitrary: s) (simp_all add: run_def step_evaluationsCounted)

lemma constructor_evaluationsCounted: "evaluationsCounted (constructor d)"
  by (simp add: evaluationsCounted_def constructor_def emptyCreditEvaluation_def)

lemma step_total:
  "unat (totalEvaluations (step s t)) =
     unat (totalEvaluations s) + (if isSuccessfulEvaluate t s then 1 else 0)"
proof (cases "tx_call t")
  case (SubmitCreditData i d a c p)
  then show ?thesis
    by (auto simp: isSuccessfulEvaluate_def step_def submitCreditData_def
          split: sum.splits if_splits)
next
  case (EvaluateCreditScore u)
  show ?thesis
  proof (cases "evaluateCreditScore (tx_sender t) (tx_timestamp t) u s")
    case (Inl e)
    with EvaluateCreditScore show ?thesis by (simp add: step_def isSuccessfulEvaluate_def)
  next
    case (Inr r)
    obtain s' evs where r: "r = (s', evs)" by (cases r)
    from evaluate_counts [OF Inr [unfolded r]] Inr r EvaluateCreditScore show ?thesis
      by (simp add: step_def isSuccessfulEvaluate_def unat_succ)
  qed
next
  case RequestLoanApproval
  then show ?thesis
    by (auto simp: isSuccessfulEvaluate_def step_def requestLoanApproval_def
          split: sum.splits if_splits)
qed

text \<open>
  C10. In every state reached from the constructor by any history of transactions,
  \<open>totalEvaluations\<close> is the number of addresses whose evaluation exists. It starts at
  0, and a transaction changes it only by adding exactly 1 when it is a successful
  \<open>evaluateCreditScore\<close>; nothing lowers it.
\<close>

theorem total_evaluations_counts:
  "unat (totalEvaluations (run ts (constructor d)))
     = card {u. isEvaluated (creditEvaluations (run ts (constructor d)) u)}
   \<and> totalEvaluations (constructor d) = 0
   \<and> unat (totalEvaluations (step s t))
       = unat (totalEvaluations s) + (if isSuccessfulEvaluate t s then 1 else 0)"
proof -
  have "evaluationsCounted (run ts (constructor d))"
    by (rule run_evaluationsCounted) (rule constructor_evaluationsCounted)
  then show ?thesis by (simp add: evaluationsCounted_def step_total) (simp add: constructor_def)
qed

theorem total_evaluations_counts_witness:
  "unat (totalEvaluations (run [submitA, evaluateA, requestA] (constructor deployer))) = 1
   \<and> card {u. isEvaluated
        (creditEvaluations (run [submitA, evaluateA, requestA] (constructor deployer)) u)} = 1"
proof -
  have "totalEvaluations (run [submitA, evaluateA, requestA] (constructor deployer)) = 1"
    by (simp add: actor_defs tx_defs Let_def)
  with total_evaluations_counts [of "[submitA, evaluateA, requestA]" deployer] show ?thesis
    by simp
qed

section \<open>The pipeline\<close>

subsection \<open>Traces of one attempt\<close>

lemma statusesOf_append: "statusesOf (xs @ ys) = statusesOf xs @ statusesOf ys"
  by (induction xs rule: statusesOf.induct) simp_all

lemma delaysOf_append: "delaysOf (xs @ ys) = delaysOf xs @ delaysOf ys"
  by (induction xs rule: delaysOf.induct) simp_all

lemma attemptsOf_append: "attemptsOf (xs @ ys) = attemptsOf xs @ attemptsOf ys"
  by (induction xs rule: attemptsOf.induct) simp_all

lemma submissionsOf_append: "submissionsOf (xs @ ys) = submissionsOf xs @ submissionsOf ys"
  by (induction xs rule: submissionsOf.induct) simp_all

lemmas trace_append = statusesOf_append delaysOf_append attemptsOf_append submissionsOf_append

lemma trackTransaction_quiet:
  "delaysOf (fst (trackTransaction env h)) = []"
  "attemptsOf (fst (trackTransaction env h)) = []"
  "submissionsOf (fst (trackTransaction env h)) = []"
  by (simp_all add: trackTransaction_def Let_def split: sum.splits option.splits)


lemma attemptBody_fst:
  "fst (attemptBody env k) =
     (if k > 0 then [Delay 1000] else []) @
     [LogAttempt (k + 1),
      StatusUpdate \<lparr>hash = None, status = Pending, confirmations = 0,
            gasUsed = None, effectiveGasPrice = None, blockNumber = None, error = None\<rparr>,
      Submit (prepareOptions (estimateContractCall env))] @
     (case sendTransaction env (prepareOptions (estimateContractCall env)) of
        Inl e \<Rightarrow> [] | Inr h \<Rightarrow> fst (trackTransaction env h))"
  by (simp add: attemptBody_def Let_def split: sum.splits prod.splits)


lemma attemptBody_delays: "delaysOf (fst (attemptBody env k)) = (if k > 0 then [1000] else [])"
  by (simp add: attemptBody_fst trace_append trackTransaction_quiet split: sum.splits)

lemma attemptBody_attempts: "attemptsOf (fst (attemptBody env k)) = [Suc k]"
  by (simp add: attemptBody_fst trace_append trackTransaction_quiet split: sum.splits)

lemma attemptBody_submissions:
  "submissionsOf (fst (attemptBody env k)) = [prepareOptions (estimateContractCall env)]"
  by (simp add: attemptBody_fst trace_append trackTransaction_quiet split: sum.splits)








lemma submissionsOf_concat:
  "submissionsOf (concat (map f ks)) = concat (map (\<lambda>k. submissionsOf (f k)) ks)"
  by (induction ks) (simp_all add: submissionsOf_append)

subsection \<open>The retry loop\<close>

lemma attemptLoop_failed_step:
  assumes "int a < retries" "snd (attemptBody (envs a) a) = Inl e" "\<not> isUserCancellation e"
  shows "attemptLoop envs retries a le =
     (fst (attemptBody (envs a) a) @ fst (attemptLoop envs retries (Suc a) (Some e)),
      snd (attemptLoop envs retries (Suc a) (Some e)))"
  using assms
  by (subst attemptLoop.simps) (auto split: prod.splits sum.splits)

lemma attemptLoop_success:
  assumes "int a \<le> retries" "snd (attemptBody (envs a) a) = Inr r"
  shows "attemptLoop envs retries a le = (fst (attemptBody (envs a) a), Inr r)"
  using assms
  by (subst attemptLoop.simps) (auto split: prod.splits sum.splits)

lemma attemptLoop_last:
  assumes "int a \<le> retries" "snd (attemptBody (envs a) a) = Inl e"
    "int a = retries \<or> isUserCancellation e"
  shows "attemptLoop envs retries a le = (fst (attemptBody (envs a) a), Inl (Some e))"
  using assms
  by (subst attemptLoop.simps) (auto split: prod.splits sum.splits)

text \<open>
  Whenever the loop is entered it makes the attempts \<open>a\<close> to \<open>j\<close> for some \<open>j\<close> within
  the bound, forwards their effects in order, and ends with the outcome of attempt \<open>j\<close>.
\<close>

lemma attemptLoop_structure:
  assumes "int a \<le> retries"
  shows "\<exists>j. a \<le> j \<and> int j \<le> retries
     \<and> fst (attemptLoop envs retries a le)
         = concat (map (\<lambda>k. fst (attemptBody (envs k) k)) [a..<Suc j])
     \<and> snd (attemptLoop envs retries a le)
         = (case snd (attemptBody (envs j) j) of Inr r \<Rightarrow> Inr r | Inl e \<Rightarrow> Inl (Some e))"
  using assms
proof (induction n \<equiv> "nat (retries - int a)" arbitrary: a le rule: less_induct)
  case less
  note le_r = less.prems
  show ?case
  proof (cases "snd (attemptBody (envs a) a)")
    case (Inr r)
    from attemptLoop_success [where envs = envs, OF le_r Inr, of le] Inr le_r
    show ?thesis by (intro exI [of _ a]) simp
  next
    case (Inl e)
    show ?thesis
    proof (cases "int a = retries \<or> isUserCancellation e")
      case True
      from attemptLoop_last [where envs = envs, OF le_r Inl True, of le] Inl le_r
      show ?thesis by (intro exI [of _ a]) simp
    next
      case False
      then have lt: "int a < retries" and nc: "\<not> isUserCancellation e"
        using le_r by auto
      have st: "attemptLoop envs retries a le =
         (fst (attemptBody (envs a) a) @ fst (attemptLoop envs retries (Suc a) (Some e)),
          snd (attemptLoop envs retries (Suc a) (Some e)))"
        by (rule attemptLoop_failed_step [where envs = envs, OF lt Inl nc])
      have "nat (retries - int (Suc a)) < nat (retries - int a)" using lt by simp
      moreover have "int (Suc a) \<le> retries" using lt by simp
      ultimately obtain j where j: "Suc a \<le> j" "int j \<le> retries"
        "fst (attemptLoop envs retries (Suc a) (Some e))
           = concat (map (\<lambda>k. fst (attemptBody (envs k) k)) [Suc a..<Suc j])"
        "snd (attemptLoop envs retries (Suc a) (Some e))
           = (case snd (attemptBody (envs j) j) of Inr r \<Rightarrow> Inr r | Inl e \<Rightarrow> Inl (Some e))"
        using less.hyps [of "Suc a" "Some e"] by blast
      have up: "[a..<j] = a # [Suc a..<j]" using j(1) by (simp add: upt_conv_Cons)
      show ?thesis
        unfolding st using j up by (intro exI [of _ j]) simp
    qed
  qed
qed

lemma attempts_concat:
  "attemptsOf (concat (map (\<lambda>k. fst (attemptBody (envs k) k)) [a..<j])) = map Suc [a..<j]"
  by (induction j) (simp_all add: attemptsOf_append attemptBody_attempts)

text \<open>
  The same for the whole call: with a non-negative bound it makes at least one attempt
  and at most \<open>retries + 1\<close>, and its trace is the traces of the attempts made, in order,
  followed by the last report when it throws.
\<close>

lemma executeTransaction_structure:
  assumes "0 \<le> o_retries opts"
  shows "fst (executeTransaction envs opts) =
       concat (map (\<lambda>k. fst (attemptBody (envs k) k)) [0..<attemptsMade envs opts])
       @ (case snd (executeTransaction envs opts) of
            Inr receipt \<Rightarrow> []
          | Inl f \<Rightarrow> (case f of Thrown m \<Rightarrow> [StatusUpdate (failedReport m)] | TypeError \<Rightarrow> []))
     \<and> 0 < attemptsMade envs opts
     \<and> int (attemptsMade envs opts) \<le> o_retries opts + 1"
proof -
  from assms have "int 0 \<le> o_retries opts" by simp
  from attemptLoop_structure [where envs = envs and le = None, OF this]
  obtain j where j: "int j \<le> o_retries opts"
    and tr: "fst (attemptLoop envs (o_retries opts) 0 None)
         = concat (map (\<lambda>k. fst (attemptBody (envs k) k)) [0..<Suc j])"
    and res: "snd (attemptLoop envs (o_retries opts) 0 None)
         = (case snd (attemptBody (envs j) j) of Inr r \<Rightarrow> Inr r | Inl e \<Rightarrow> Inl (Some e))"
    by blast
  have loop: "attemptLoop envs (o_retries opts) 0 None =
      (concat (map (\<lambda>k. fst (attemptBody (envs k) k)) [0..<Suc j]),
       case snd (attemptBody (envs j) j) of Inr r \<Rightarrow> Inr r | Inl e \<Rightarrow> Inl (Some e))"
    using tr res by (simp add: prod_eq_iff)
  have att: "attemptsOf (concat (map (\<lambda>k. fst (attemptBody (envs k) k)) [0..<Suc j]))
      = map Suc [0..<Suc j]"
    by (rule attempts_concat)
  have made: "attemptsMade envs opts = Suc j"
  proof (cases "snd (attemptBody (envs j) j)")
    case (Inl e)
    have "attemptsOf (fst (executeTransaction envs opts)) = map Suc [0..<Suc j]"
      by (simp only: executeTransaction_def loop Inl attemptsOf_append att
            prod.case sum.case option.case fst_conv attemptsOf.simps append_Nil2)
    then show ?thesis by (simp add: attemptsMade_def)
  next
    case (Inr r)
    have "attemptsOf (fst (executeTransaction envs opts)) = map Suc [0..<Suc j]"
      by (simp only: executeTransaction_def loop Inr att prod.case sum.case fst_conv)
    then show ?thesis by (simp add: attemptsMade_def)
  qed
  have "fst (executeTransaction envs opts) =
       concat (map (\<lambda>k. fst (attemptBody (envs k) k)) [0..<Suc j])
       @ (case snd (executeTransaction envs opts) of
            Inr receipt \<Rightarrow> []
          | Inl f \<Rightarrow> (case f of Thrown m \<Rightarrow> [StatusUpdate (failedReport m)] | TypeError \<Rightarrow> []))"
    by (cases "snd (attemptBody (envs j) j)")
       (simp_all add: executeTransaction_def loop failedReport_def)
  with made j show ?thesis by simp
qed

lemma executeTransaction_submissions:
  assumes "0 \<le> o_retries opts"
  shows "submissionsOf (fst (executeTransaction envs opts))
     = map (\<lambda>k. prepareOptions (estimateContractCall (envs k))) [0..<attemptsMade envs opts]"
proof -
  have "concat (map (\<lambda>k. [prepareOptions (estimateContractCall (envs k))]) ks)
      = map (\<lambda>k. prepareOptions (estimateContractCall (envs k))) ks" for ks
    by (induction ks) simp_all
  then show ?thesis
    by (subst conjunct1 [OF executeTransaction_structure [OF assms]])
       (simp add: submissionsOf_append submissionsOf_concat attemptBody_submissions
          split: sum.splits failure.splits)
qed

text \<open>
  C7. The claim expects a definite simulation failure to end the call at once, without
  retry. \<open>estimateContractCall\<close> does throw "Contract call would fail" when the static
  call fails, but inside its own outer \<open>try\<close>, whose \<open>catch\<close> answers with the default
  estimate; the executor never sees the error. Here the first attempt's estimation and
  static call both throw: the attempt still submits the transaction, with the default
  gas limit 400000; the submission fails, the executor pauses 1000 milliseconds and
  tries again, and the second attempt returns the receipt.
\<close>

theorem simulation_failure_is_retried:
  "estimateGas (revertedThenGood 0) = Inl (newError ''execution reverted'')
   \<and> staticCall (revertedThenGood 0) = Inl (newError ''execution reverted'')
   \<and> snd (executeTransaction revertedThenGood oneRetry) = Inr goodReceipt
   \<and> attemptsOf (fst (executeTransaction revertedThenGood oneRetry)) = [1, 2]
   \<and> delaysOf (fst (executeTransaction revertedThenGood oneRetry)) = [1000]
   \<and> map opt_gasLimit (submissionsOf (fst (executeTransaction revertedThenGood oneRetry)))
       = [400000, 300001]"
  by (simp add: pipeline_defs env_defs estimate_defs Let_def)

subsection \<open>The gas limit\<close>

text \<open>
  C8, as stated: on every estimation path the gas limit submitted is the chosen estimate
  times 1.5. When the fee data cannot be read, the estimator answers with its default
  estimate, whatever dynamic estimation would have returned (here 200001), and the
  default's gas limit 400000 is submitted as it is: neither 600000 nor 300001.
\<close>

theorem fee_data_failure_unbuffered:
  "getFeeData feeDownEnv = Inl (newError ''network error'')
   \<and> estimateGas feeDownEnv = Inr 200001
   \<and> snd (executeTransaction (\<lambda>_. feeDownEnv) oneRetry) = Inr goodReceipt
   \<and> map opt_gasLimit (submissionsOf (fst (executeTransaction (\<lambda>_. feeDownEnv) oneRetry)))
       = [gasLimit defaultGasEstimate]
   \<and> gasLimit defaultGasEstimate = 400000
   \<and> gasLimit defaultGasEstimate \<noteq> gasLimit defaultGasEstimate * 150 div 100
   \<and> gasLimit defaultGasEstimate \<noteq> 200001 * 150 div 100"
  by (simp add: pipeline_defs env_defs estimate_defs Let_def)

text \<open>
  C8, amended. When the fee data is read and dynamic estimation returns \<open>g\<close>, the gas
  limit is \<open>g * 150 div 100\<close>: 1.5 times \<open>g\<close> in integer arithmetic. When the fee data is
  read, estimation throws and the static call succeeds, it is 1.5 times the fallback
  300000, that is 450000. When the fee data cannot be read it is the default 400000 with
  no multiplier. The options submitted carry the estimator's gas limit, and a call
  submits once per attempt made, each time with the gas limit estimated in that attempt.
\<close>

theorem gas_limit_of_estimate:
  "(getFeeData env = Inr feeData \<and> estimateGas env = Inr g \<longrightarrow>
      gasLimit (estimateContractCall env) = g * 150 div 100)
   \<and> (getFeeData env = Inr feeData \<and> estimateGas env = Inl e \<and> staticCall env = Inr u \<longrightarrow>
      gasLimit (estimateContractCall env) = 300000 * 150 div 100
      \<and> gasLimit (estimateContractCall env) = 450000)
   \<and> (getFeeData env = Inl e' \<longrightarrow> gasLimit (estimateContractCall env) = 400000)
   \<and> opt_gasLimit (prepareOptions (estimateContractCall env))
       = gasLimit (estimateContractCall env)
   \<and> (0 \<le> o_retries opts \<longrightarrow>
        map opt_gasLimit (submissionsOf (fst (executeTransaction envs opts)))
          = map (\<lambda>k. gasLimit (estimateContractCall (envs k))) [0..<attemptsMade envs opts])"
proof -
  have a: "getFeeData env = Inr feeData \<and> estimateGas env = Inr g \<longrightarrow>
      gasLimit (estimateContractCall env) = g * 150 div 100"
    by (simp add: estimateContractCall_def estimateBody_def estimateGasLimit_def
          priceEstimate_def Let_def split: prod.splits)
  have b: "getFeeData env = Inr feeData \<and> estimateGas env = Inl e \<and> staticCall env = Inr u \<longrightarrow>
      gasLimit (estimateContractCall env) = 300000 * 150 div 100
      \<and> gasLimit (estimateContractCall env) = 450000"
    by (simp add: estimateContractCall_def estimateBody_def estimateGasLimit_def
          priceEstimate_def Let_def split: prod.splits)
  have c: "getFeeData env = Inl e' \<longrightarrow> gasLimit (estimateContractCall env) = 400000"
    by (simp add: estimateContractCall_def estimateBody_def defaultGasEstimate_def)
  have d: "opt_gasLimit (prepareOptions est) = gasLimit est" for est
    by (simp add: prepareOptions_def)
  have e: "0 \<le> o_retries opts \<longrightarrow>
        map opt_gasLimit (submissionsOf (fst (executeTransaction envs opts)))
          = map (\<lambda>k. gasLimit (estimateContractCall (envs k))) [0..<attemptsMade envs opts]"
    by (simp add: executeTransaction_submissions d)
  from a b c d [of "estimateContractCall env"] e show ?thesis by blast
qed

theorem gas_limit_of_estimate_witness:
  "gasLimit (estimateContractCall goodEnv) = 300001
   \<and> gasLimit (estimateContractCall fallbackEnv) = 450000
   \<and> gasLimit (estimateContractCall feeDownEnv) = 400000
   \<and> 0 \<le> o_retries oneRetry
   \<and> map opt_gasLimit (submissionsOf (fst (executeTransaction (\<lambda>_. goodEnv) oneRetry)))
       = [300001]"
proof -
  have g: "getFeeData goodEnv = Inr goodFees \<and> estimateGas goodEnv = Inr 200001"
    by (simp add: goodEnv_def)
  have f: "getFeeData fallbackEnv = Inr goodFees
      \<and> estimateGas fallbackEnv = Inl (newError ''cannot estimate gas'')
      \<and> staticCall fallbackEnv = Inr ()"
    by (simp add: fallbackEnv_def goodEnv_def)
  have d: "getFeeData feeDownEnv = Inl (newError ''network error'')"
    by (simp add: feeDownEnv_def goodEnv_def)
  have r: "0 \<le> o_retries oneRetry" by (simp add: oneRetry_def)
  have n: "attemptsMade (\<lambda>_. goodEnv) oneRetry = 1"
    by (simp add: attemptsMade_def pipeline_defs env_defs estimate_defs Let_def)
  from gas_limit_of_estimate [of goodEnv goodFees 200001 _ _ _ oneRetry "\<lambda>_. goodEnv"]
    gas_limit_of_estimate [of fallbackEnv goodFees _ "newError ''cannot estimate gas''" "()"]
    gas_limit_of_estimate [of feeDownEnv _ _ _ _ "newError ''network error''"]
    g f d r n
  show ?thesis by simp
qed

subsection \<open>Progress reports\<close>




end
